theory Spec2Isabelle
  imports Complex_Main "HOL-Library.Word"
begin

unbundle bit_operations_syntax

section \<open>The authentication handler of ocm-sdk-go\<close>

text \<open>
  A shallow embedding of the package \<open>authentication\<close> (the handler builder, the
  handler, key loading, token and claim checks, the access control list and the error
  response). Go values are modelled as follows: a struct is a record, a pointer or an
  interface that may be nil is an option, an \<open>error\<close> is its message, a
  \<open>(value, err)\<close> result is a sum with \<open>Inl\<close> for the error, and a Go map is a
  partial function, or an association list where the code iterates over it. Everything
  the package reaches outside of itself (file system, network, the standard library's
  URL, regular expression, JSON and YAML parsers, the JWT library) is a field of the
  record \<open>env\<close>, so that every theorem holds for any behaviour of these.
\<close>

subsection \<open>Standard library functions on strings\<close>

type_synonym error = string

text \<open>
  \<open>fmt.Sprintf\<close> is written out as concatenation; \<open>quoted s\<close> is the \<open>'%s'\<close> of the
  format strings.
\<close>

definition quoted :: "string \<Rightarrow> string" where
  "quoted s = CHR 0x27 # s @ [CHR 0x27]"

text \<open>ASCII letters, by character code.\<close>

definition is_upper :: "char \<Rightarrow> bool" where
  "is_upper c = (65 \<le> (of_char c :: nat) \<and> (of_char c :: nat) \<le> 90)"

definition is_lower :: "char \<Rightarrow> bool" where
  "is_lower c = (97 \<le> (of_char c :: nat) \<and> (of_char c :: nat) \<le> 122)"

definition is_digit :: "char \<Rightarrow> bool" where
  "is_digit c = (48 \<le> (of_char c :: nat) \<and> (of_char c :: nat) \<le> 57)"

definition to_lower :: "char \<Rightarrow> char" where
  "to_lower c = (if is_upper c then char_of ((of_char c :: nat) + 32) else c)"

definition to_upper :: "char \<Rightarrow> char" where
  "to_upper c = (if is_lower c then char_of ((of_char c :: nat) - 32) else c)"

text \<open>
  \<open>strings.EqualFold\<close>, on ASCII: the code calls it with \<open>"https"\<close> against a URL
  scheme (which \<open>url.Parse\<close> only builds from ASCII letters, digits, \<open>+\<close>, \<open>-\<close> and
  \<open>.\<close>) and with \<open>"Bearer"\<close>, none of whose letters has a non-ASCII case variant.
\<close>

definition EqualFold :: "string \<Rightarrow> string \<Rightarrow> bool" where
  "EqualFold s t = (map to_lower s = map to_lower t)"

text \<open>\<open>strings.ToUpper\<close>; bytes outside ASCII are left as they are.\<close>

definition ToUpper :: "string \<Rightarrow> string" where
  "ToUpper s = map to_upper s"

text \<open>\<open>strings.ReplaceAll\<close> for a one-character pattern and replacement.\<close>

definition ReplaceAll :: "string \<Rightarrow> char \<Rightarrow> char \<Rightarrow> string" where
  "ReplaceAll s old new = map (\<lambda>c. if c = old then new else c) s"

text \<open>
  \<open>strings.Split\<close> with a one-character separator: the pieces between the
  separators, so that a string without separator gives one piece (the empty string
  gives one empty piece).
\<close>

fun Split :: "string \<Rightarrow> char \<Rightarrow> string list" where
  "Split [] sep = [[]]"
| "Split (c # cs) sep =
     (if c = sep then [] # Split cs sep
      else (case Split cs sep of
              [] \<Rightarrow> [[c]]
            | p # ps \<Rightarrow> (c # p) # ps))"

subsection \<open>Base64 and big integers\<close>

text \<open>
  \<open>base64.RawURLEncoding.DecodeString\<close>: the URL alphabet without padding. Carriage
  returns and line feeds are ignored, a character outside the alphabet (the padding
  character included) is an error, and so is a final group of one character. The
  unused low bits of a final group of two or three characters are not checked.
\<close>

definition b64_value :: "char \<Rightarrow> nat option" where
  "b64_value c =
     (let n = (of_char c :: nat) in
      if is_upper c then Some (n - 65)
      else if is_lower c then Some (n - 97 + 26)
      else if is_digit c then Some (n - 48 + 52)
      else if c = CHR ''-'' then Some 62
      else if c = CHR ''_'' then Some 63
      else None)"

fun b64_values :: "string \<Rightarrow> error + nat list" where
  "b64_values [] = Inr []"
| "b64_values (c # cs) =
     (if c = CHR 0x0D \<or> c = CHR 0x0A then b64_values cs
      else (case b64_value c of
              None \<Rightarrow> Inl ''illegal base64 data''
            | Some v \<Rightarrow> (case b64_values cs of
                          Inl e \<Rightarrow> Inl e
                        | Inr vs \<Rightarrow> Inr (v # vs))))"

fun b64_groups :: "nat list \<Rightarrow> error + nat list" where
  "b64_groups (a # b # c # d # rest) =
     (case b64_groups rest of
        Inl e \<Rightarrow> Inl e
      | Inr bs \<Rightarrow>
          Inr ((a * 4 + b div 16) # ((b mod 16) * 16 + c div 4) # ((c mod 4) * 64 + d) # bs))"
| "b64_groups [a, b, c] = Inr [a * 4 + b div 16, (b mod 16) * 16 + c div 4]"
| "b64_groups [a, b] = Inr [a * 4 + b div 16]"
| "b64_groups [a] = Inl ''illegal base64 data''"
| "b64_groups [] = Inr []"

definition DecodeString :: "string \<Rightarrow> error + nat list" where
  "DecodeString s =
     (case b64_values s of
        Inl e \<Rightarrow> Inl e
      | Inr vs \<Rightarrow> b64_groups vs)"

text \<open>\<open>new(big.Int).SetBytes\<close>: the bytes as a big-endian unsigned number.\<close>

definition SetBytes :: "nat list \<Rightarrow> nat" where
  "SetBytes bs = foldl (\<lambda>acc b. acc * 256 + b) 0 bs"

text \<open>
  \<open>int(x.Int64())\<close>: the low 64 bits of the number, read as two's complement.
\<close>

definition Int64 :: "nat \<Rightarrow> int" where
  "Int64 n = sint (of_nat n :: 64 word)"

subsection \<open>Time\<close>

text \<open>
  A \<open>time.Time\<close> is modelled by its nanoseconds since the Unix epoch, a
  \<open>time.Duration\<close> by its nanoseconds. \<open>Time.Sub\<close> saturates at the largest and
  smallest duration; \<open>time.Since t\<close> is \<open>now.Sub t\<close>. The zero time is January 1 of
  year 1.
\<close>

type_synonym time = int
type_synonym duration = int

definition maxDuration :: duration where
  "maxDuration = 2 ^ 63 - 1"

definition minDuration :: duration where
  "minDuration = - (2 ^ 63)"

definition Minute :: duration where
  "Minute = 60 * 1000000000"

definition zeroTime :: time where
  "zeroTime = - 62135596800 * 1000000000"

definition Sub :: "time \<Rightarrow> time \<Rightarrow> duration" where
  "Sub t u =
     (if t - u > maxDuration then maxDuration
      else if t - u < minDuration then minDuration
      else t - u)"

definition Since :: "time \<Rightarrow> time \<Rightarrow> duration" where
  "Since now t = Sub now t"

subsection \<open>Data\<close>

text \<open>A decoded JSON value, as \<open>encoding/json\<close> stores it in an \<open>interface{}\<close>.\<close>

datatype json =
    JNull
  | JBool bool
  | JNumber real
  | JString string
  | JArray "json list"
  | JObject "(string \<times> json) list"

record sdk_Logger =
  DebugEnabled :: bool

datatype http_Handler = Http_Handler string

datatype x509_CertPool = CertPool "string list"

text \<open>
  A compiled \<open>*regexp.Regexp\<close> is modelled by its \<open>MatchString\<close> method.
\<close>

type_synonym regexp = "string \<Rightarrow> bool"

record url_URL =
  Scheme :: string

record os_FileInfo =
  IsRegular :: bool

text \<open>An \<open>io.Reader\<close> is modelled by what \<open>ioutil.ReadAll\<close> gets from it.\<close>

type_synonym io_Reader = "error + string"

record http_Response =
  Body :: io_Reader
  Body_Close :: "error option"

record aclItem =
  Claim :: string
  Pattern :: string

record keyData =
  Kid :: string
  Kty :: string
  Alg :: string
  Use :: string
  N :: string
  E :: string

record setData =
  Keys :: "keyData list"

record rsa_PublicKey =
  rsa_N :: nat
  rsa_E :: int

record jwt_Token =
  Raw :: string
  Header :: "string \<rightharpoonup> json"
  Claims :: "string \<rightharpoonup> json"

text \<open>
  The error of \<open>jwt.Parser.ParseWithClaims\<close>: a \<open>*jwt.ValidationError\<close> with its
  bit field \<open>Errors\<close>, or an error of another type.
\<close>

datatype jwt_error = ValidationError "32 word" | OtherError error

definition ValidationErrorMalformed :: "32 word" where
  "ValidationErrorMalformed = 1"

definition ValidationErrorUnverifiable :: "32 word" where
  "ValidationErrorUnverifiable = 2"

definition ValidationErrorSignatureInvalid :: "32 word" where
  "ValidationErrorSignatureInvalid = 4"

definition ValidationErrorExpired :: "32 word" where
  "ValidationErrorExpired = 16"

definition ValidationErrorIssuedAt :: "32 word" where
  "ValidationErrorIssuedAt = 32"

definition ValidationErrorNotValidYet :: "32 word" where
  "ValidationErrorNotValidYet = 128"

text \<open>
  The surroundings of the package. \<open>jwt_ParseUnverified\<close> is the part of
  \<open>ParseWithClaims\<close> before the key function is called (it decodes the token),
  \<open>jwt_Validate\<close> the part after it (it checks the registered claims and the
  signature, and gives the error bits, zero when the token is valid).
\<close>

record env =
  os_Stat :: "string \<Rightarrow> error + os_FileInfo"
  url_Parse :: "string \<Rightarrow> error + url_URL"
  regexp_Compile :: "string \<Rightarrow> error + regexp"
  ioutil_ReadFile :: "string \<Rightarrow> error + string"
  yaml_Unmarshal :: "string \<Rightarrow> error + aclItem list"
  os_Open :: "string \<Rightarrow> error + io_Reader"
  http_Do :: "string \<Rightarrow> error + http_Response"
  json_Unmarshal :: "string \<Rightarrow> error + setData"
  jwt_ParseUnverified :: "string \<Rightarrow> jwt_error + jwt_Token"
  jwt_Validate :: "jwt_Token \<Rightarrow> rsa_PublicKey \<Rightarrow> 32 word"
  fmt_v :: "json \<Rightarrow> string"
  fmt_T :: "json \<Rightarrow> string"

subsection \<open>The builder\<close>

record HandlerBuilder =
  b_logger :: "sdk_Logger option"
  b_publicPaths :: "string list"
  b_keysFiles :: "string list"
  b_keysURLs :: "string list"
  b_keysCAs :: "x509_CertPool option"
  b_keysInsecure :: bool
  b_aclFiles :: "string list"
  b_next :: "http_Handler option"

record http_Client =
  RootCAs :: "x509_CertPool option"
  InsecureSkipVerify :: bool

text \<open>
  The handler. \<open>keys\<close> is the content of the \<open>sync.Map\<close>; \<open>aclItems\<close> is a Go map,
  kept as an association list with one entry for each claim name because
  \<open>checkACL\<close> iterates over it (in an order that Go does not fix).
\<close>

record Handler =
  logger :: sdk_Logger
  publicPaths :: "regexp list"
  keysFiles :: "string list"
  keysURLs :: "string list"
  keysClient :: http_Client
  keys :: "string \<rightharpoonup> rsa_PublicKey"
  lastKeyReload :: time
  aclItems :: "(string \<times> regexp) list"
  nextHandler :: http_Handler

definition NewHandler :: HandlerBuilder where
  "NewHandler =
     \<lparr>b_logger = None, b_publicPaths = [], b_keysFiles = [], b_keysURLs = [],
      b_keysCAs = None, b_keysInsecure = False, b_aclFiles = [], b_next = None\<rparr>"

definition Logger :: "sdk_Logger \<Rightarrow> HandlerBuilder \<Rightarrow> HandlerBuilder" where
  "Logger v b = b\<lparr>b_logger := Some v\<rparr>"

definition Public :: "string \<Rightarrow> HandlerBuilder \<Rightarrow> HandlerBuilder" where
  "Public v b = b\<lparr>b_publicPaths := b_publicPaths b @ [v]\<rparr>"

definition KeysFile :: "string \<Rightarrow> HandlerBuilder \<Rightarrow> HandlerBuilder" where
  "KeysFile v b = (if v \<noteq> [] then b\<lparr>b_keysFiles := b_keysFiles b @ [v]\<rparr> else b)"

definition KeysURL :: "string \<Rightarrow> HandlerBuilder \<Rightarrow> HandlerBuilder" where
  "KeysURL v b = (if v \<noteq> [] then b\<lparr>b_keysURLs := b_keysURLs b @ [v]\<rparr> else b)"

definition KeysCAs :: "x509_CertPool option \<Rightarrow> HandlerBuilder \<Rightarrow> HandlerBuilder" where
  "KeysCAs v b = b\<lparr>b_keysCAs := v\<rparr>"

definition KeysInsecure :: "bool \<Rightarrow> HandlerBuilder \<Rightarrow> HandlerBuilder" where
  "KeysInsecure v b = b\<lparr>b_keysInsecure := v\<rparr>"

definition ACLFile :: "string \<Rightarrow> HandlerBuilder \<Rightarrow> HandlerBuilder" where
  "ACLFile v b = (if v \<noteq> [] then b\<lparr>b_aclFiles := b_aclFiles b @ [v]\<rparr> else b)"

definition Next :: "http_Handler \<Rightarrow> HandlerBuilder \<Rightarrow> HandlerBuilder" where
  "Next v b = b\<lparr>b_next := Some v\<rparr>"

text \<open>
  The loops of \<open>Build\<close>. Each works on the variable \<open>err\<close> of \<open>Build\<close>: \<open>Inl\<close> is a
  \<open>return\<close> from inside the loop with that error, \<open>Inr\<close> is the end of the loop, with
  the value \<open>err\<close> has then.
\<close>

fun check_keysFiles :: "env \<Rightarrow> string list \<Rightarrow> error option \<Rightarrow> error + error option" where
  "check_keysFiles ev [] err = Inr err"
| "check_keysFiles ev (file # files) err =
     (case os_Stat ev file of
        Inl e \<Rightarrow> Inl (''keys file '' @ quoted file @ '' doesn't exist: '' @ e)
      | Inr info \<Rightarrow>
          if \<not> IsRegular info
          then Inl (''keys file '' @ quoted file @ '' isn't a regular file'')
          else check_keysFiles ev files None)"

fun check_keysURLs :: "env \<Rightarrow> string list \<Rightarrow> error option \<Rightarrow> error + error option" where
  "check_keysURLs ev [] err = Inr err"
| "check_keysURLs ev (addr # addrs) err =
     (case url_Parse ev addr of
        Inl e \<Rightarrow> Inl (''keys URL '' @ quoted addr @ '' isn't a valid URL: '' @ e)
      | Inr parsed \<Rightarrow>
          if \<not> EqualFold (Scheme parsed) ''https''
          then check_keysURLs ev addrs
                 (Some (''keys URL '' @ quoted addr @ '' doesn't use the HTTPS protocol: <nil>''))
          else check_keysURLs ev addrs None)"

fun compile_public :: "env \<Rightarrow> string list \<Rightarrow> error option \<Rightarrow> error + (regexp list \<times> error option)" where
  "compile_public ev [] err = Inr ([], err)"
| "compile_public ev (expr # exprs) err =
     (case regexp_Compile ev expr of
        Inl e \<Rightarrow> Inl e
      | Inr re \<Rightarrow>
          (case compile_public ev exprs None of
             Inl e \<Rightarrow> Inl e
           | Inr (res, err') \<Rightarrow> Inr (re # res, err')))"

text \<open>\<open>items[claim] = re\<close> on the association list.\<close>

fun map_store :: "'k \<Rightarrow> 'v \<Rightarrow> ('k \<times> 'v) list \<Rightarrow> ('k \<times> 'v) list" where
  "map_store k v [] = [(k, v)]"
| "map_store k v ((k', v') # kvs) =
     (if k = k' then (k, v) # kvs else (k', v') # map_store k v kvs)"

fun loadACLItems :: "env \<Rightarrow> aclItem list \<Rightarrow> (string \<times> regexp) list \<Rightarrow> error + (string \<times> regexp) list" where
  "loadACLItems ev [] items = Inr items"
| "loadACLItems ev (itemData # listData) items =
     (case regexp_Compile ev (Pattern itemData) of
        Inl e \<Rightarrow> Inl e
      | Inr re \<Rightarrow> loadACLItems ev listData (map_store (Claim itemData) re items))"

definition loadACLFile :: "env \<Rightarrow> string \<Rightarrow> (string \<times> regexp) list \<Rightarrow> error + (string \<times> regexp) list" where
  "loadACLFile ev file items =
     (case ioutil_ReadFile ev file of
        Inl e \<Rightarrow> Inl e
      | Inr yamlData \<Rightarrow>
          (case yaml_Unmarshal ev yamlData of
             Inl e \<Rightarrow> Inl e
           | Inr listData \<Rightarrow> loadACLItems ev listData items))"

fun load_aclFiles :: "env \<Rightarrow> string list \<Rightarrow> (string \<times> regexp) list \<Rightarrow> error option \<Rightarrow>
    error + ((string \<times> regexp) list \<times> error option)" where
  "load_aclFiles ev [] items err = Inr (items, err)"
| "load_aclFiles ev (file # files) items err =
     (case loadACLFile ev file items of
        Inl e \<Rightarrow> Inl e
      | Inr items' \<Rightarrow> load_aclFiles ev files items' None)"

text \<open>
  \<open>Build\<close> returns the pair of its named results \<open>handler\<close> and \<open>err\<close>: a \<open>return\<close>
  before the handler is created gives \<open>None\<close> as handler, and the final \<open>return\<close>
  gives the handler together with whatever \<open>err\<close> holds.
\<close>

definition Build :: "env \<Rightarrow> HandlerBuilder \<Rightarrow> Handler option \<times> error option" where
  "Build ev b =
     (case b_logger b of
        None \<Rightarrow> (None, Some ''logger is mandatory'')
      | Some lg \<Rightarrow>
     (case b_next b of
        None \<Rightarrow> (None, Some ''next handler is mandatory'')
      | Some nx \<Rightarrow>
     if length (b_keysFiles b) + length (b_keysURLs b) = 0
     then (None, Some ''at least one keys file or one keys URL must be configured'')
     else
     (case check_keysFiles ev (b_keysFiles b) None of
        Inl e \<Rightarrow> (None, Some e)
      | Inr err1 \<Rightarrow>
     (case check_keysURLs ev (b_keysURLs b) err1 of
        Inl e \<Rightarrow> (None, Some e)
      | Inr err2 \<Rightarrow>
     (case compile_public ev (b_publicPaths b) err2 of
        Inl e \<Rightarrow> (None, Some e)
      | Inr (public, err3) \<Rightarrow>
     (case load_aclFiles ev (b_aclFiles b) [] err3 of
        Inl e \<Rightarrow> (None, Some e)
      | Inr (items, err4) \<Rightarrow>
          (Some \<lparr>logger = lg, publicPaths = public,
                 keysFiles = b_keysFiles b, keysURLs = b_keysURLs b,
                 keysClient = \<lparr>RootCAs = b_keysCAs b, InsecureSkipVerify = b_keysInsecure b\<rparr>,
                 keys = Map.empty, lastKeyReload = zeroTime,
                 aclItems = items, nextHandler = nx\<rparr>,
           err4)))))))"

subsection \<open>Requests, responses and the log\<close>

record Request =
  URL_Path :: string
  r_Header :: "string \<rightharpoonup> string list"
  r_ctx_token :: "jwt_Token option"

text \<open>\<open>http.Header.Get\<close>: the first value of the header, the empty string if there is none.\<close>

definition Header_Get :: "(string \<rightharpoonup> string list) \<Rightarrow> string \<Rightarrow> string" where
  "Header_Get hdr k =
     (case hdr k of
        None \<Rightarrow> []
      | Some [] \<Rightarrow> []
      | Some (v # vs) \<Rightarrow> v)"

record errors_Error =
  err_id :: "string option"
  err_href :: "string option"
  err_code :: "string option"
  err_reason :: "string option"

datatype level = LvDebug | LvInfo | LvError

text \<open>
  What a call does to the outside: a line sent to the logger, a header set on the
  response writer, a response written by the package \<open>errors\<close>, or the call of the
  next handler with a request. The functions below take the trace of these events and
  return it extended.
\<close>

datatype event =
    Log level string
  | Header_Set string string
  | PanicResponse
  | Response nat "errors_Error option"
  | next_ServeHTTP http_Handler Request

text \<open>
  Modelled from the spec: the package \<open>errors\<close> (\<open>NewError\<close>, the builder methods
  \<open>ID\<close>, \<open>HREF\<close>, \<open>Code\<close>, \<open>Reason\<close> and \<open>Build\<close>, \<open>SendError\<close> and \<open>SendPanic\<close>) is
  not among the sources. The spec calls the builders plain value containers with no
  logic, and the builders that are among the sources copy their fields into the
  object and return no error; \<open>SendError\<close> serializes the body onto the wire, with
  HTTP status 401 for all authentication and ACL failures; \<open>SendPanic\<close> is the generic
  fail-safe response.
\<close>

definition errors_NewError :: errors_Error where
  "errors_NewError = \<lparr>err_id = None, err_href = None, err_code = None, err_reason = None\<rparr>"

definition errors_ID :: "string \<Rightarrow> errors_Error \<Rightarrow> errors_Error" where
  "errors_ID v b = b\<lparr>err_id := Some v\<rparr>"

definition errors_HREF :: "string \<Rightarrow> errors_Error \<Rightarrow> errors_Error" where
  "errors_HREF v b = b\<lparr>err_href := Some v\<rparr>"

definition errors_Code :: "string \<Rightarrow> errors_Error \<Rightarrow> errors_Error" where
  "errors_Code v b = b\<lparr>err_code := Some v\<rparr>"

definition errors_Reason :: "string \<Rightarrow> errors_Error \<Rightarrow> errors_Error" where
  "errors_Reason v b = b\<lparr>err_reason := Some v\<rparr>"

definition errors_Build :: "errors_Error \<Rightarrow> error + errors_Error" where
  "errors_Build b = Inr b"

definition errors_SendError :: "errors_Error option \<Rightarrow> event list \<Rightarrow> event list" where
  "errors_SendError body tr = tr @ [Response 401 body]"

definition errors_SendPanic :: "event list \<Rightarrow> event list" where
  "errors_SendPanic tr = tr @ [PanicResponse]"

subsection \<open>The error response\<close>

text \<open>
  \<open>sendError\<close> gets the reason already formatted. \<open>http.StatusUnauthorized\<close> is 401,
  which \<open>%d\<close> prints as \<open>401\<close>. After a failure of \<open>Build\<close> the code goes on (there is
  no \<open>return\<close>) with the nil body.
\<close>

definition sendError :: "Handler \<Rightarrow> Request \<Rightarrow> string \<Rightarrow> event list \<Rightarrow> event list" where
  "sendError h r reason tr =
     (let segments = Split (URL_Path r) (CHR ''/'');
          builder = errors_ID ''401'' errors_NewError;
          (builder, realm) =
            (if length segments \<ge> 4
             then (let prefix = segments ! 1;
                       service = segments ! 2;
                       version = segments ! 3
                   in (errors_Code
                         (ToUpper (ReplaceAll service (CHR ''_'') (CHR ''-'')) @ ''-401'')
                         (errors_HREF
                            (''/'' @ prefix @ ''/'' @ service @ ''/'' @ version @ ''/errors/401'')
                            builder),
                       service @ ''/'' @ version))
             else (builder, []));
          builder = errors_Reason reason builder;
          (body, tr) =
            (case errors_Build builder of
               Inl e \<Rightarrow>
                 (None, errors_SendPanic (tr @ [Log LvError (''Can't build error response: '' @ e)]))
             | Inr b \<Rightarrow> (Some b, tr));
          tr = tr @ [Header_Set ''WWW-Authenticate''
                       (''Bearer realm='' @ [CHR 0x22] @ realm @ [CHR 0x22])]
      in errors_SendError body tr)"

subsection \<open>Loading keys\<close>

definition parseKey :: "keyData \<Rightarrow> error + rsa_PublicKey" where
  "parseKey data =
     (if Kty data \<noteq> ''RSA''
      then Inl (''key type '' @ quoted (Kty data) @ '' isn't supported'')
      else (case DecodeString (N data) of
              Inl e \<Rightarrow> Inl e
            | Inr nb \<Rightarrow>
                (case DecodeString (E data) of
                   Inl e \<Rightarrow> Inl e
                 | Inr eb \<Rightarrow> Inr \<lparr>rsa_N = SetBytes nb, rsa_E = Int64 (SetBytes eb)\<rparr>)))"

definition debug_lines :: "Handler \<Rightarrow> keyData \<Rightarrow> event list" where
  "debug_lines h kd =
     (if DebugEnabled (logger h)
      then [Log LvDebug (''Value of 'kid' is '' @ quoted (Kid kd)),
            Log LvDebug (''Value of 'kty' is '' @ quoted (Kty kd)),
            Log LvDebug (''Value of 'alg' is '' @ quoted (Alg kd)),
            Log LvDebug (''Value of 'e' is '' @ quoted (E kd)),
            Log LvDebug (''Value of 'n' is '' @ quoted (N kd))]
      else [])"

text \<open>
  The body of the loop of \<open>readKeys\<close>, for one record of the document: each
  \<open>continue\<close> ends the body with the handler unchanged. The second test of \<open>E\<close> is the
  one the code has before the message about \<open>n\<close>.
\<close>

definition readKeys_body :: "Handler \<Rightarrow> keyData \<Rightarrow> event list \<Rightarrow> Handler \<times> event list" where
  "readKeys_body h kd tr =
     (let tr = tr @ debug_lines h kd in
      if Kid kd = []
      then (h, tr @ [Log LvError ''Can't read key because 'kid' is empty''])
      else if Kty kd = []
      then (h, tr @ [Log LvError (''Can't read key '' @ quoted (Kid kd) @
                                  '' because 'kty' is empty'')])
      else if Alg kd = []
      then (h, tr @ [Log LvError (''Can't read key '' @ quoted (Kid kd) @
                                  '' because 'alg' is empty'')])
      else if E kd = []
      then (h, tr @ [Log LvError (''Can't read key '' @ quoted (Kid kd) @
                                  '' because 'e' is empty'')])
      else if E kd = []
      then (h, tr @ [Log LvError (''Can't read key '' @ quoted (Kid kd) @
                                  '' because 'n' is empty'')])
      else (case parseKey kd of
              Inl e \<Rightarrow>
                (h, tr @ [Log LvError (''Key '' @ quoted (Kid kd) @
                                       '' will be ignored because it can't be parsed'')])
            | Inr key \<Rightarrow>
                (h\<lparr>keys := (keys h)(Kid kd \<mapsto> key)\<rparr>,
                 tr @ [Log LvInfo (''Loaded key '' @ quoted (Kid kd))])))"

fun readKeys_loop :: "Handler \<Rightarrow> keyData list \<Rightarrow> event list \<Rightarrow> Handler \<times> event list" where
  "readKeys_loop h [] tr = (h, tr)"
| "readKeys_loop h (kd # kds) tr =
     (case readKeys_body h kd tr of (h', tr') \<Rightarrow> readKeys_loop h' kds tr')"

definition readKeys :: "env \<Rightarrow> Handler \<Rightarrow> io_Reader \<Rightarrow> event list \<Rightarrow>
    error option \<times> Handler \<times> event list" where
  "readKeys ev h reader tr =
     (case reader of
        Inl e \<Rightarrow> (Some e, h, tr)
      | Inr jsonData \<Rightarrow>
          (case json_Unmarshal ev jsonData of
             Inl e \<Rightarrow> (Some e, h, tr)
           | Inr sd \<Rightarrow>
               (let (h', tr') = readKeys_loop h (Keys sd) tr in (None, h', tr'))))"

definition loadKeysFile :: "env \<Rightarrow> Handler \<Rightarrow> string \<Rightarrow> event list \<Rightarrow>
    error option \<times> Handler \<times> event list" where
  "loadKeysFile ev h file tr =
     (case os_Open ev file of
        Inl e \<Rightarrow> (Some e, h, tr)
      | Inr reader \<Rightarrow> readKeys ev h reader tr)"

text \<open>
  \<open>http_Do\<close> stands for \<open>http.NewRequest\<close> followed by \<open>keysClient.Do\<close>: the error of
  either is returned as it is. The deferred function closes the body after
  \<open>readKeys\<close> and logs a failure to do so.
\<close>

definition loadKeysURL :: "env \<Rightarrow> Handler \<Rightarrow> string \<Rightarrow> event list \<Rightarrow>
    error option \<times> Handler \<times> event list" where
  "loadKeysURL ev h addr tr =
     (case http_Do ev addr of
        Inl e \<Rightarrow> (Some e, h, tr)
      | Inr response \<Rightarrow>
          (let (err, h', tr') = readKeys ev h (Body response) tr
           in (err, h',
               (case Body_Close response of
                  None \<Rightarrow> tr'
                | Some e \<Rightarrow>
                    tr' @ [Log LvError (''Can't close response body for request to '' @
                                        quoted addr @ '': '' @ e)]))))"

fun loadKeys_files :: "env \<Rightarrow> string list \<Rightarrow> Handler \<Rightarrow> event list \<Rightarrow> Handler \<times> event list" where
  "loadKeys_files ev [] h tr = (h, tr)"
| "loadKeys_files ev (keysFile # rest) h tr =
     (let tr = tr @ [Log LvInfo (''Loading keys from file '' @ quoted keysFile)];
          (err, h, tr) = loadKeysFile ev h keysFile tr;
          tr = (case err of
                  None \<Rightarrow> tr
                | Some e \<Rightarrow>
                    tr @ [Log LvError (''Can't load keys from file '' @ quoted keysFile @
                                       '': '' @ e)])
      in loadKeys_files ev rest h tr)"

fun loadKeys_URLs :: "env \<Rightarrow> string list \<Rightarrow> Handler \<Rightarrow> event list \<Rightarrow> Handler \<times> event list" where
  "loadKeys_URLs ev [] h tr = (h, tr)"
| "loadKeys_URLs ev (keysURL # rest) h tr =
     (let tr = tr @ [Log LvInfo (''Loading keys from URL '' @ quoted keysURL)];
          (err, h, tr) = loadKeysURL ev h keysURL tr;
          tr = (case err of
                  None \<Rightarrow> tr
                | Some e \<Rightarrow>
                    tr @ [Log LvError (''Can't load keys from URL '' @ quoted keysURL @
                                       '': '' @ e)])
      in loadKeys_URLs ev rest h tr)"

definition loadKeys :: "env \<Rightarrow> Handler \<Rightarrow> event list \<Rightarrow> error option \<times> Handler \<times> event list" where
  "loadKeys ev h tr =
     (let (h, tr) = loadKeys_files ev (keysFiles h) h tr;
          (h, tr) = loadKeys_URLs ev (keysURLs h) h tr
      in (None, h, tr))"

subsection \<open>Selecting the key of a token\<close>

text \<open>
  \<open>selectKey\<close> reads the clock twice: \<open>t_since\<close> is the time that \<open>time.Since\<close> sees,
  \<open>t_now\<close> the one that \<open>time.Now\<close> returns after the reload.
\<close>

definition selectKey :: "env \<Rightarrow> time \<Rightarrow> time \<Rightarrow> Handler \<Rightarrow> jwt_Token \<Rightarrow> event list \<Rightarrow>
    (error + rsa_PublicKey) \<times> Handler \<times> event list" where
  "selectKey ev t_since t_now h token tr =
     (case Header token ''kid'' of
        None \<Rightarrow> (Inl ''token doesn't have a 'kid' field in the header'', h, tr)
      | Some value \<Rightarrow>
     (case value of
        JString kid \<Rightarrow>
          (let key = keys h kid in
           if key = None \<and> Since t_since (lastKeyReload h) > 1 * Minute
           then (case loadKeys ev h tr of
                   (Some e, h', tr') \<Rightarrow> (Inl e, h', tr')
                 | (None, h', tr') \<Rightarrow>
                     (let h'' = h'\<lparr>lastKeyReload := t_now\<rparr> in
                      case keys h'' kid of
                        None \<Rightarrow>
                          (Inl (''there is no key for key identifier '' @ quoted kid), h'', tr')
                      | Some k \<Rightarrow> (Inr k, h'', tr')))
           else (case key of
                   None \<Rightarrow> (Inl (''there is no key for key identifier '' @ quoted kid), h, tr)
                 | Some k \<Rightarrow> (Inr k, h, tr)))
      | _ \<Rightarrow>
          (Inl (''token has a 'kid' field, but it is a '' @ fmt_T ev value @
                '' instead of a string''), h, tr)))"

subsection \<open>Checking the token\<close>

text \<open>
  The \<open>switch\<close> of \<open>checkToken\<close> on the error of the parser: the first case whose bit is
  set gives the reason.
\<close>

definition token_error_reason :: "jwt_error \<Rightarrow> string" where
  "token_error_reason err =
     (case err of
        ValidationError errs \<Rightarrow>
          if errs AND ValidationErrorMalformed \<noteq> 0 then ''Bearer token is malformed''
          else if errs AND ValidationErrorUnverifiable \<noteq> 0 then ''Bearer token can't be verified''
          else if errs AND ValidationErrorSignatureInvalid \<noteq> 0
          then ''Signature of bearer token isn't valid''
          else if errs AND ValidationErrorExpired \<noteq> 0 then ''Bearer token is expired''
          else if errs AND ValidationErrorIssuedAt \<noteq> 0
          then ''Bearer token was issued in the future''
          else if errs AND ValidationErrorNotValidYet \<noteq> 0 then ''Bearer token isn't valid yet''
          else ''Bearer token isn't valid''
      | OtherError e \<Rightarrow> ''Bearer token is malformed'')"

text \<open>
  \<open>ParseWithClaims\<close> decodes the token, calls the key function (\<open>selectKey\<close>), whose
  error it reports as an unverifiable token, and validates the token with the key.
\<close>

definition ParseWithClaims :: "env \<Rightarrow> time \<Rightarrow> time \<Rightarrow> Handler \<Rightarrow> string \<Rightarrow> event list \<Rightarrow>
    (jwt_error + jwt_Token) \<times> Handler \<times> event list" where
  "ParseWithClaims ev t_since t_now h bearer tr =
     (case jwt_ParseUnverified ev bearer of
        Inl err \<Rightarrow> (Inl err, h, tr)
      | Inr token \<Rightarrow>
          (case selectKey ev t_since t_now h token tr of
             (Inl e, h', tr') \<Rightarrow> (Inl (ValidationError ValidationErrorUnverifiable), h', tr')
           | (Inr key, h', tr') \<Rightarrow>
               (let errs = jwt_Validate ev token key in
                if errs = 0 then (Inr token, h', tr')
                else (Inl (ValidationError errs), h', tr'))))"

definition checkToken :: "env \<Rightarrow> time \<Rightarrow> time \<Rightarrow> Handler \<Rightarrow> Request \<Rightarrow> string \<Rightarrow> event list \<Rightarrow>
    (jwt_Token \<times> (string \<rightharpoonup> json)) option \<times> Handler \<times> event list" where
  "checkToken ev t_since t_now h r bearer tr =
     (case ParseWithClaims ev t_since t_now h bearer tr of
        (Inl err, h', tr') \<Rightarrow> (None, h', sendError h' r (token_error_reason err) tr')
      | (Inr token, h', tr') \<Rightarrow> (Some (token, Claims token), h', tr'))"

subsection \<open>Checking the claims\<close>

definition checkClaim :: "Handler \<Rightarrow> Request \<Rightarrow> (string \<rightharpoonup> json) \<Rightarrow> string \<Rightarrow> event list \<Rightarrow>
    json option \<times> event list" where
  "checkClaim h r claims name tr =
     (case claims name of
        None \<Rightarrow>
          (None, sendError h r (''Bearer token doesn't contain required claim '' @ quoted name) tr)
      | Some value \<Rightarrow> (Some value, tr))"

definition checkStringClaim :: "env \<Rightarrow> Handler \<Rightarrow> Request \<Rightarrow> (string \<rightharpoonup> json) \<Rightarrow> string \<Rightarrow>
    event list \<Rightarrow> string option \<times> event list" where
  "checkStringClaim ev h r claims name tr =
     (case checkClaim h r claims name tr of
        (None, tr') \<Rightarrow> (None, tr')
      | (Some value, tr') \<Rightarrow>
          (case value of
             JString result \<Rightarrow> (Some result, tr')
           | _ \<Rightarrow>
               (None, sendError h r
                        (''Bearer token claim '' @ quoted name @
                         '' contains incorrect text value '' @ quoted (fmt_v ev value)) tr')))"

text \<open>
  \<open>time.Unix(int64(seconds), 0)\<close>: the conversion drops the fraction. (Its result for
  a number outside of the 64-bit integers depends on the platform; \<open>checkClaims\<close>
  drops the result.)
\<close>

definition Unix :: "real \<Rightarrow> time" where
  "Unix seconds = (if seconds \<ge> 0 then \<lfloor>seconds\<rfloor> else \<lceil>seconds\<rceil>) * 1000000000"

definition checkTimeClaim :: "env \<Rightarrow> Handler \<Rightarrow> Request \<Rightarrow> (string \<rightharpoonup> json) \<Rightarrow> string \<Rightarrow>
    event list \<Rightarrow> time option \<times> event list" where
  "checkTimeClaim ev h r claims name tr =
     (case checkClaim h r claims name tr of
        (None, tr') \<Rightarrow> (None, tr')
      | (Some value, tr') \<Rightarrow>
          (case value of
             JNumber seconds \<Rightarrow> (Some (Unix seconds), tr')
           | _ \<Rightarrow>
               (None, sendError h r
                        (''Bearer token claim '' @ quoted name @
                         '' contains incorrect time value '' @ quoted (fmt_v ev value)) tr')))"

definition checkClaims :: "env \<Rightarrow> Handler \<Rightarrow> Request \<Rightarrow> (string \<rightharpoonup> json) \<Rightarrow> event list \<Rightarrow>
    bool \<times> event list" where
  "checkClaims ev h r claims tr =
     (case checkStringClaim ev h r claims ''typ'' tr of
        (None, tr1) \<Rightarrow> (False, tr1)
      | (Some value, tr1) \<Rightarrow>
          if \<not> EqualFold value ''Bearer''
          then (False, sendError h r (''Bearer token type '' @ quoted value @ '' isn't supported'') tr1)
          else (case checkTimeClaim ev h r claims ''iat'' tr1 of
                  (None, tr2) \<Rightarrow> (False, tr2)
                | (Some _, tr2) \<Rightarrow>
                    (case checkTimeClaim ev h r claims ''exp'' tr2 of
                       (None, tr3) \<Rightarrow> (False, tr3)
                     | (Some _, tr3) \<Rightarrow> (True, tr3))))"

subsection \<open>The access control list\<close>

text \<open>
  The loop of \<open>checkACL\<close> over the items: \<open>True\<close> is the \<open>return true\<close> inside the loop,
  \<open>False\<close> the end of the loop.
\<close>

fun checkACL_loop :: "(string \<times> regexp) list \<Rightarrow> (string \<rightharpoonup> json) \<Rightarrow> bool" where
  "checkACL_loop [] claims = False"
| "checkACL_loop ((claim, pattern) # items) claims =
     (case claims claim of
        None \<Rightarrow> checkACL_loop items claims
      | Some value \<Rightarrow>
          (case value of
             JString text \<Rightarrow> if pattern text then True else checkACL_loop items claims
           | _ \<Rightarrow> checkACL_loop items claims))"

definition checkACL :: "Handler \<Rightarrow> Request \<Rightarrow> (string \<rightharpoonup> json) \<Rightarrow> event list \<Rightarrow> bool \<times> event list" where
  "checkACL h r claims tr =
     (if length (aclItems h) = 0 then (True, tr)
      else if checkACL_loop (aclItems h) claims then (True, tr)
      else (False, sendError h r ''Access denied'' tr))"

subsection \<open>The handler\<close>

text \<open>
  \<open>bearerRE\<close> is \<open>^([a-zA-Z0-9]+)\s+(.*)$\<close>, where \<open>\s\<close> is one of tab, line feed, form
  feed, carriage return and space, \<open>.\<close> is any character but the line feed and \<open>$\<close>
  is the end of the text. The first group can only be the longest prefix of letters
  and digits, since white space has to follow it; the white space is taken as long
  as possible, and a shorter one would leave the same line feeds to the second group.
  \<open>FindStringSubmatch\<close> gives the whole match and the two groups, or nil.
\<close>

definition is_alnum :: "char \<Rightarrow> bool" where
  "is_alnum c = (is_lower c \<or> is_upper c \<or> is_digit c)"

definition is_space :: "char \<Rightarrow> bool" where
  "is_space c = (c = CHR 0x09 \<or> c = CHR 0x0A \<or> c = CHR 0x0C \<or> c = CHR 0x0D \<or> c = CHR 0x20)"

definition bearerRE_FindStringSubmatch :: "string \<Rightarrow> string list" where
  "bearerRE_FindStringSubmatch header =
     (let typ = takeWhile is_alnum header;
          rest = dropWhile is_alnum header;
          spaces = takeWhile is_space rest;
          bearer = dropWhile is_space rest
      in if typ \<noteq> [] \<and> spaces \<noteq> [] \<and> CHR 0x0A \<notin> set bearer
         then [header, typ, bearer]
         else [])"

text \<open>The loop over the public paths: whether one of them matches the path.\<close>

fun public_match :: "regexp list \<Rightarrow> string \<Rightarrow> bool" where
  "public_match [] path = False"
| "public_match (expr # exprs) path = (if expr path then True else public_match exprs path)"

definition ServeHTTP :: "env \<Rightarrow> time \<Rightarrow> time \<Rightarrow> Handler \<Rightarrow> Request \<Rightarrow> event list \<Rightarrow>
    Handler \<times> event list" where
  "ServeHTTP ev t_since t_now h r tr =
     (if public_match (publicPaths h) (URL_Path r)
      then (h, tr @ [next_ServeHTTP (nextHandler h) r])
      else
     (let header = Header_Get (r_Header r) ''Authorization'' in
      if header = []
      then (h, sendError h r ''Request doesn't contain the 'Authorization' header'' tr)
      else
     (let matches = bearerRE_FindStringSubmatch header in
      if length matches \<noteq> 3
      then (h, sendError h r (''Authorization header '' @ quoted header @ '' is malformed'') tr)
      else
     (let typ = matches ! 1;
          bearer = matches ! 2
      in
      if \<not> EqualFold typ ''Bearer''
      then (h, sendError h r (''Authentication type '' @ quoted typ @ '' isn't supported'') tr)
      else
     (case checkToken ev t_since t_now h r bearer tr of
        (None, h1, tr1) \<Rightarrow> (h1, tr1)
      | (Some (token, claims), h1, tr1) \<Rightarrow>
     (case checkClaims ev h1 r claims tr1 of
        (False, tr2) \<Rightarrow> (h1, tr2)
      | (True, tr2) \<Rightarrow>
     (case checkACL h1 r claims tr2 of
        (False, tr3) \<Rightarrow> (h1, tr3)
      | (True, tr3) \<Rightarrow>
          (h1, tr3 @ [next_ServeHTTP (nextHandler h1) (r\<lparr>r_ctx_token := Some token\<rparr>)]))))))))"

subsection \<open>Rejected requests\<close>

text \<open>
  What a client sees of a rejected request: the \<open>WWW-Authenticate\<close> header is set and
  one response is written, with status 401 and a body whose identifier is \<open>401\<close> and
  whose reason is the given one. Nothing else happens; in particular the next handler
  is not called.
\<close>

fun unauthorized :: "string \<Rightarrow> event list \<Rightarrow> bool" where
  "unauthorized reason [Header_Set name v, Response status (Some body)] =
     (name = ''WWW-Authenticate'' \<and> status = 401 \<and> err_id body = Some ''401'' \<and>
      err_reason body = Some reason)"
| "unauthorized reason evs = False"

subsection \<open>A sample configuration\<close>

text \<open>
  A small environment, used to run the definitions on concrete inputs: one keys file
  that exists, a keys server that is not reachable, and a key set of three records,
  the first without algorithm, the second without modulus, the third complete.
\<close>

definition example_keys :: "keyData list" where
  "example_keys =
     [\<lparr>Kid = ''k0'', Kty = ''RSA'', Alg = [], Use = ''sig'', N = ''AQAB'', E = ''AQAB''\<rparr>,
      \<lparr>Kid = ''k1'', Kty = ''RSA'', Alg = ''RS256'', Use = ''sig'', N = [], E = ''AQAB''\<rparr>,
      \<lparr>Kid = ''k2'', Kty = ''RSA'', Alg = ''RS256'', Use = ''sig'', N = ''AQAB'', E = ''AQAB''\<rparr>]"

definition example_token :: jwt_Token where
  "example_token =
     \<lparr>Raw = ''token'',
      Header = [''kid'' \<mapsto> JString ''k2''],
      Claims = [''typ'' \<mapsto> JString ''bearer'', ''iat'' \<mapsto> JNumber 1, ''exp'' \<mapsto> JNumber 2,
                ''email'' \<mapsto> JString ''jdoe@example.com'']\<rparr>"

definition example_env :: env where
  "example_env =
     \<lparr>os_Stat = (\<lambda>file. if file = ''/etc/keys/jwks.json'' then Inr \<lparr>IsRegular = True\<rparr>
                         else Inl ''no such file or directory''),
      url_Parse = (\<lambda>addr. if addr = ''https://sso.example.com/certs''
                          then Inr \<lparr>Scheme = ''https''\<rparr>
                          else if addr = ''http://sso.example.com/certs''
                          then Inr \<lparr>Scheme = ''http''\<rparr>
                          else Inl ''invalid URL''),
      regexp_Compile = (\<lambda>expr. if expr = ''^/api/v1/public$''
                               then Inr (\<lambda>s. s = ''/api/v1/public'')
                               else Inl ''error parsing regexp''),
      ioutil_ReadFile = (\<lambda>file. Inl ''no such file or directory''),
      yaml_Unmarshal = (\<lambda>data. Inl ''cannot unmarshal''),
      os_Open = (\<lambda>file. if file = ''/etc/keys/jwks.json'' then Inr (Inr ''jwks'')
                         else Inl ''no such file or directory''),
      http_Do = (\<lambda>addr. Inl ''connection refused''),
      json_Unmarshal = (\<lambda>data. if data = ''jwks'' then Inr \<lparr>Keys = example_keys\<rparr>
                               else Inl ''unexpected end of JSON input''),
      jwt_ParseUnverified = (\<lambda>bearer. if bearer = ''token'' then Inr example_token
                                      else Inl (ValidationError ValidationErrorMalformed)),
      jwt_Validate = (\<lambda>token key. 0),
      fmt_v = (\<lambda>v. ''?''),
      fmt_T = (\<lambda>v. ''?'')\<rparr>"

definition example_handler :: Handler where
  "example_handler =
     \<lparr>logger = \<lparr>DebugEnabled = False\<rparr>,
      publicPaths = [\<lambda>s. s = ''/api/v1/public''],
      keysFiles = [''/etc/keys/jwks.json''],
      keysURLs = [''https://sso.example.com/certs''],
      keysClient = \<lparr>RootCAs = None, InsecureSkipVerify = False\<rparr>,
      keys = Map.empty,
      lastKeyReload = zeroTime,
      aclItems = [],
      nextHandler = Http_Handler ''api''\<rparr>"

definition example_request :: Request where
  "example_request =
     \<lparr>URL_Path = ''/api/clusters_mgmt/v1/clusters'',
      r_Header = [''Authorization'' \<mapsto> [''Bearer token'']],
      r_ctx_token = None\<rparr>"

section \<open>Properties\<close>

lemmas ascii_defs = is_upper_def is_lower_def is_digit_def to_lower_def to_upper_def

text \<open>Facts for evaluating the definitions on concrete inputs.\<close>

lemmas ascii_eval = ascii_defs char_of_def bit_Suc_0_iff

lemmas example_defs = example_env_def example_handler_def example_keys_def example_token_def
  example_request_def

lemmas sendError_defs = sendError_def errors_Build_def errors_SendError_def errors_Reason_def
  errors_Code_def errors_HREF_def errors_ID_def errors_NewError_def ToUpper_def ReplaceAll_def
  quoted_def

lemmas loadKeys_defs = loadKeys_def loadKeysFile_def loadKeysURL_def readKeys_def
  readKeys_body_def debug_lines_def parseKey_def DecodeString_def b64_value_def SetBytes_def
  Int64_def

subsection \<open>The builder\<close>

text \<open>
  C10: \<open>KeysFile\<close>, \<open>KeysURL\<close> and \<open>ACLFile\<close> called with the empty string leave the
  builder as it is, and a builder that has a logger and a next handler but no keys
  source still has none after such calls: \<open>Build\<close> fails for want of a keys source,
  whatever the environment.
\<close>

theorem empty_value_ignored:
  "KeysFile [] b = b \<and> KeysURL [] b = b \<and> ACLFile [] b = b \<and>
   (b_keysFiles b = [] \<and> b_keysURLs b = [] \<and> b_logger b \<noteq> None \<and> b_next b \<noteq> None \<longrightarrow>
    Build ev (ACLFile [] (KeysURL [] (KeysFile [] b))) =
      (None, Some ''at least one keys file or one keys URL must be configured''))"
  by (auto simp add: KeysFile_def KeysURL_def ACLFile_def Build_def)

theorem empty_value_ignored_witness:
  "KeysFile [] (Next (Http_Handler ''api'') (Logger \<lparr>DebugEnabled = False\<rparr> NewHandler)) =
     Next (Http_Handler ''api'') (Logger \<lparr>DebugEnabled = False\<rparr> NewHandler) \<and>
   b_keysFiles (Next (Http_Handler ''api'') (Logger \<lparr>DebugEnabled = False\<rparr> NewHandler)) = [] \<and>
   b_keysURLs (Next (Http_Handler ''api'') (Logger \<lparr>DebugEnabled = False\<rparr> NewHandler)) = [] \<and>
   b_logger (Next (Http_Handler ''api'') (Logger \<lparr>DebugEnabled = False\<rparr> NewHandler)) \<noteq> None \<and>
   b_next (Next (Http_Handler ''api'') (Logger \<lparr>DebugEnabled = False\<rparr> NewHandler)) \<noteq> None \<and>
   Build example_env
     (ACLFile [] (KeysURL [] (KeysFile []
        (Next (Http_Handler ''api'') (Logger \<lparr>DebugEnabled = False\<rparr> NewHandler))))) =
     (None, Some ''at least one keys file or one keys URL must be configured'')"
  using empty_value_ignored
    [of "Next (Http_Handler ''api'') (Logger \<lparr>DebugEnabled = False\<rparr> NewHandler)" example_env]
  by (simp add: Next_def Logger_def NewHandler_def KeysFile_def KeysURL_def ACLFile_def)

text \<open>
  C1: a keys URL with the scheme \<open>http\<close> does not stop \<open>Build\<close>. The branch for a scheme
  other than HTTPS sets \<open>err\<close> and goes on. In any environment in which the URL parses
  with the scheme \<open>http\<close> and the pattern of the public path compiles (to \<open>re\<close>), the
  compilation overwrites \<open>err\<close>, and \<open>Build\<close> returns the handler and no error; without
  a public path it returns the handler together with the error.
\<close>

theorem Build_http_keys_URL:
  "Build (ev\<lparr>url_Parse := (\<lambda>addr. Inr \<lparr>Scheme = ''http''\<rparr>),
             regexp_Compile := (\<lambda>expr. Inr re)\<rparr>)
     (Public ''^/api/v1/public$'' (KeysURL ''http://sso.example.com/certs''
        (Next nx (Logger lg NewHandler)))) =
   (Some \<lparr>logger = lg,
          publicPaths = [re],
          keysFiles = [],
          keysURLs = [''http://sso.example.com/certs''],
          keysClient = \<lparr>RootCAs = None, InsecureSkipVerify = False\<rparr>,
          keys = Map.empty,
          lastKeyReload = zeroTime,
          aclItems = [],
          nextHandler = nx\<rparr>,
    None) \<and>
   Build (ev\<lparr>url_Parse := (\<lambda>addr. Inr \<lparr>Scheme = ''http''\<rparr>)\<rparr>)
     (KeysURL ''http://sso.example.com/certs'' (Next nx (Logger lg NewHandler))) =
   (Some \<lparr>logger = lg,
          publicPaths = [],
          keysFiles = [],
          keysURLs = [''http://sso.example.com/certs''],
          keysClient = \<lparr>RootCAs = None, InsecureSkipVerify = False\<rparr>,
          keys = Map.empty,
          lastKeyReload = zeroTime,
          aclItems = [],
          nextHandler = nx\<rparr>,
    Some (''keys URL '' @ quoted ''http://sso.example.com/certs'' @
          '' doesn't use the HTTPS protocol: <nil>''))"
  by (simp add: Build_def Public_def KeysURL_def Next_def Logger_def NewHandler_def
      EqualFold_def ascii_defs)

subsection \<open>Reading keys\<close>

text \<open>
  C2: a record whose \<open>n\<close> is empty is not skipped. Whenever the document parses to the
  single record \<open>k1\<close> with an empty \<open>n\<close> and the other fields present, \<open>readKeys\<close> stores
  a key under \<open>k1\<close> and logs it as loaded: the test before the message about \<open>n\<close> looks
  at \<open>e\<close> again, and the empty string decodes to the modulus zero. On the sample key
  set, the record \<open>k0\<close> without algorithm is skipped and the records after it are
  processed, \<open>k1\<close> among them.
\<close>

theorem readKeys_empty_n:
  "readKeys
     (ev\<lparr>json_Unmarshal :=
           (\<lambda>data. Inr \<lparr>Keys = [\<lparr>Kid = ''k1'', Kty = ''RSA'', Alg = ''RS256'', Use = ''sig'',
                                   N = [], E = ''AQAB''\<rparr>]\<rparr>)\<rparr>)
     h (Inr jsonData) tr =
     (None,
      h\<lparr>keys := (keys h)(''k1'' \<mapsto> \<lparr>rsa_N = 0, rsa_E = 65537\<rparr>)\<rparr>,
      tr @ debug_lines h \<lparr>Kid = ''k1'', Kty = ''RSA'', Alg = ''RS256'', Use = ''sig'',
                           N = [], E = ''AQAB''\<rparr> @
        [Log LvInfo (''Loaded key '' @ quoted ''k1'')]) \<and>
   readKeys example_env example_handler (Inr ''jwks'') [] =
     (None,
      example_handler\<lparr>keys := [''k1'' \<mapsto> \<lparr>rsa_N = 0, rsa_E = 65537\<rparr>,
                             ''k2'' \<mapsto> \<lparr>rsa_N = 65537, rsa_E = 65537\<rparr>]\<rparr>,
      [Log LvError (''Can't read key '' @ quoted ''k0'' @ '' because 'alg' is empty''),
       Log LvInfo (''Loaded key '' @ quoted ''k1''),
       Log LvInfo (''Loaded key '' @ quoted ''k2'')])"
  by (simp add: readKeys_def example_env_def example_keys_def example_handler_def
      readKeys_body_def debug_lines_def parseKey_def DecodeString_def b64_value_def
      ascii_defs SetBytes_def Int64_def)

subsection \<open>The error response\<close>

lemma sendError_long:
  "length (Split (URL_Path r) (CHR ''/'')) \<ge> 4 \<Longrightarrow>
   sendError h r reason tr =
     tr @ [Header_Set ''WWW-Authenticate''
             (''Bearer realm='' @ [CHR 0x22] @ Split (URL_Path r) (CHR ''/'') ! 2 @ ''/'' @
              Split (URL_Path r) (CHR ''/'') ! 3 @ [CHR 0x22]),
           Response 401
             (Some \<lparr>err_id = Some ''401'',
                    err_href = Some (''/'' @ Split (URL_Path r) (CHR ''/'') ! 1 @ ''/'' @
                                     Split (URL_Path r) (CHR ''/'') ! 2 @ ''/'' @
                                     Split (URL_Path r) (CHR ''/'') ! 3 @ ''/errors/401''),
                    err_code = Some (ToUpper (ReplaceAll (Split (URL_Path r) (CHR ''/'') ! 2)
                                                (CHR ''_'') (CHR ''-'')) @ ''-401''),
                    err_reason = Some reason\<rparr>)]"
  by (simp add: sendError_def Let_def errors_Build_def errors_SendError_def errors_Reason_def
      errors_Code_def errors_HREF_def errors_ID_def errors_NewError_def)

lemma sendError_short:
  "length (Split (URL_Path r) (CHR ''/'')) < 4 \<Longrightarrow>
   sendError h r reason tr =
     tr @ [Header_Set ''WWW-Authenticate'' (''Bearer realm='' @ [CHR 0x22, CHR 0x22]),
           Response 401
             (Some \<lparr>err_id = Some ''401'', err_href = None, err_code = None,
                    err_reason = Some reason\<rparr>)]"
  by (simp add: sendError_def Let_def errors_Build_def errors_SendError_def errors_Reason_def
      errors_Code_def errors_HREF_def errors_ID_def errors_NewError_def)

lemma sendError_unauthorized:
  "\<exists>evs. sendError h r reason tr = tr @ evs \<and> unauthorized reason evs"
proof (cases "length (Split (URL_Path r) (CHR ''/'')) \<ge> 4")
  case True
  then show ?thesis by (simp add: sendError_long)
next
  case False
  then have "length (Split (URL_Path r) (CHR ''/'')) < 4" by simp
  then show ?thesis by (simp add: sendError_short)
qed





subsection \<open>Loading keys\<close>

lemma readKeys_body_frame:
  "readKeys_body h kd tr = (h', tr') \<Longrightarrow> (\<exists>ks. h' = h\<lparr>keys := ks\<rparr>) \<and> (\<exists>evs. tr' = tr @ evs)"
  by (auto simp add: readKeys_body_def Let_def split: if_splits sum.splits
      intro: exI [of _ "keys h"])

lemma readKeys_loop_frame:
  "readKeys_loop h kds tr = (h', tr') \<Longrightarrow> (\<exists>ks. h' = h\<lparr>keys := ks\<rparr>) \<and> (\<exists>evs. tr' = tr @ evs)"
proof (induction kds arbitrary: h tr)
  case Nil
  then show ?case by (auto intro: exI [of _ "keys h"])
next
  case (Cons kd kds)
  obtain h1 tr1 where b: "readKeys_body h kd tr = (h1, tr1)" by (cases "readKeys_body h kd tr")
  with Cons.prems have l: "readKeys_loop h1 kds tr1 = (h', tr')" by simp
  from readKeys_body_frame [OF b] obtain ks1 evs1 where "h1 = h\<lparr>keys := ks1\<rparr>" "tr1 = tr @ evs1"
    by blast
  moreover from Cons.IH [OF l] obtain ks2 evs2 where "h' = h1\<lparr>keys := ks2\<rparr>" "tr' = tr1 @ evs2"
    by blast
  ultimately show ?case by auto
qed

lemma readKeys_frame:
  "readKeys ev h reader tr = (err, h', tr') \<Longrightarrow>
   (\<exists>ks. h' = h\<lparr>keys := ks\<rparr>) \<and> (\<exists>evs. tr' = tr @ evs)"
  by (auto simp add: readKeys_def split: sum.splits prod.splits
      dest: readKeys_loop_frame intro: exI [of _ "keys h"])

lemma readKeys_failure:
  "readKeys ev h reader tr = (Some e, h', tr') \<Longrightarrow> h' = h \<and> tr' = tr"
  by (auto simp add: readKeys_def split: sum.splits prod.splits)

lemma loadKeysFile_frame:
  "loadKeysFile ev h file tr = (err, h', tr') \<Longrightarrow>
   (\<exists>ks. h' = h\<lparr>keys := ks\<rparr>) \<and> (\<exists>evs. tr' = tr @ evs)"
  by (auto simp add: loadKeysFile_def split: sum.splits
      dest: readKeys_frame intro: exI [of _ "keys h"])

lemma loadKeysFile_failure:
  "loadKeysFile ev h file tr = (Some e, h', tr') \<Longrightarrow> h' = h \<and> tr' = tr"
  by (auto simp add: loadKeysFile_def split: sum.splits dest: readKeys_failure)

lemma loadKeysURL_frame:
  "loadKeysURL ev h addr tr = (err, h', tr') \<Longrightarrow>
   (\<exists>ks. h' = h\<lparr>keys := ks\<rparr>) \<and> (\<exists>evs. tr' = tr @ evs)"
  by (auto simp add: loadKeysURL_def split: sum.splits prod.splits option.splits
      dest!: readKeys_frame intro: exI [of _ "keys h"])

lemma loadKeysURL_failure:
  "loadKeysURL ev h addr tr = (Some e, h', tr') \<Longrightarrow> h' = h \<and> (\<exists>evs. tr' = tr @ evs)"
  by (auto simp add: loadKeysURL_def split: sum.splits prod.splits option.splits
      dest!: readKeys_failure)

lemma loadKeys_files_frame:
  "loadKeys_files ev files h tr = (h', tr') \<Longrightarrow>
   (\<exists>ks. h' = h\<lparr>keys := ks\<rparr>) \<and> (\<exists>evs. tr' = tr @ evs) \<and>
   (\<forall>f \<in> set files. Log LvInfo (''Loading keys from file '' @ quoted f) \<in> set tr')"
proof (induction files arbitrary: h tr)
  case Nil
  then show ?case by (auto intro: exI [of _ "keys h"])
next
  case (Cons f files)
  let ?tr1 = "tr @ [Log LvInfo (''Loading keys from file '' @ quoted f)]"
  obtain err h1 tr2 where s: "loadKeysFile ev h f ?tr1 = (err, h1, tr2)"
    by (cases "loadKeysFile ev h f ?tr1") auto
  let ?tr3 = "case err of None \<Rightarrow> tr2
     | Some e \<Rightarrow> tr2 @ [Log LvError (''Can't load keys from file '' @ quoted f @ '': '' @ e)]"
  from Cons.prems s have l: "loadKeys_files ev files h1 ?tr3 = (h', tr')"
    by (simp add: Let_def)
  from loadKeysFile_frame [OF s] obtain ks1 evs1 where f1: "h1 = h\<lparr>keys := ks1\<rparr>" "tr2 = ?tr1 @ evs1"
    by blast
  from Cons.IH [OF l] obtain ks2 evs2 where f2: "h' = h1\<lparr>keys := ks2\<rparr>" "tr' = ?tr3 @ evs2"
    and a: "\<forall>f \<in> set files. Log LvInfo (''Loading keys from file '' @ quoted f) \<in> set tr'"
    by blast
  from f1 f2 have "\<exists>ks. h' = h\<lparr>keys := ks\<rparr>" by auto
  moreover from f1 f2 have "\<exists>evs. tr' = tr @ evs" by (cases err) auto
  moreover from f1 f2 have "Log LvInfo (''Loading keys from file '' @ quoted f) \<in> set tr'"
    by (cases err) auto
  ultimately show ?case using a by auto
qed

lemma loadKeys_URLs_frame:
  "loadKeys_URLs ev urls h tr = (h', tr') \<Longrightarrow>
   (\<exists>ks. h' = h\<lparr>keys := ks\<rparr>) \<and> (\<exists>evs. tr' = tr @ evs) \<and>
   (\<forall>u \<in> set urls. Log LvInfo (''Loading keys from URL '' @ quoted u) \<in> set tr')"
proof (induction urls arbitrary: h tr)
  case Nil
  then show ?case by (auto intro: exI [of _ "keys h"])
next
  case (Cons u urls)
  let ?tr1 = "tr @ [Log LvInfo (''Loading keys from URL '' @ quoted u)]"
  obtain err h1 tr2 where s: "loadKeysURL ev h u ?tr1 = (err, h1, tr2)"
    by (cases "loadKeysURL ev h u ?tr1") auto
  let ?tr3 = "case err of None \<Rightarrow> tr2
     | Some e \<Rightarrow> tr2 @ [Log LvError (''Can't load keys from URL '' @ quoted u @ '': '' @ e)]"
  from Cons.prems s have l: "loadKeys_URLs ev urls h1 ?tr3 = (h', tr')"
    by (simp add: Let_def)
  from loadKeysURL_frame [OF s] obtain ks1 evs1 where f1: "h1 = h\<lparr>keys := ks1\<rparr>" "tr2 = ?tr1 @ evs1"
    by blast
  from Cons.IH [OF l] obtain ks2 evs2 where f2: "h' = h1\<lparr>keys := ks2\<rparr>" "tr' = ?tr3 @ evs2"
    and a: "\<forall>u \<in> set urls. Log LvInfo (''Loading keys from URL '' @ quoted u) \<in> set tr'"
    by blast
  from f1 f2 have "\<exists>ks. h' = h\<lparr>keys := ks\<rparr>" by auto
  moreover from f1 f2 have "\<exists>evs. tr' = tr @ evs" by (cases err) auto
  moreover from f1 f2 have "Log LvInfo (''Loading keys from URL '' @ quoted u) \<in> set tr'"
    by (cases err) auto
  ultimately show ?case using a by auto
qed

lemma loadKeys_no_error: "fst (loadKeys ev h tr) = None"
  by (simp add: loadKeys_def Let_def split: prod.splits)

lemma loadKeys_frame:
  assumes "loadKeys ev h tr = (err, h', tr')"
  shows "(\<exists>ks. h' = h\<lparr>keys := ks\<rparr>) \<and> (\<exists>evs. tr' = tr @ evs) \<and>
   (\<forall>f \<in> set (keysFiles h). Log LvInfo (''Loading keys from file '' @ quoted f) \<in> set tr') \<and>
   (\<forall>u \<in> set (keysURLs h). Log LvInfo (''Loading keys from URL '' @ quoted u) \<in> set tr')"
proof -
  obtain h1 tr1 where a: "loadKeys_files ev (keysFiles h) h tr = (h1, tr1)"
    by (cases "loadKeys_files ev (keysFiles h) h tr")
  with assms have b: "loadKeys_URLs ev (keysURLs h1) h1 tr1 = (h', tr')"
    by (simp add: loadKeys_def Let_def split: prod.splits)
  from loadKeys_files_frame [OF a] obtain ks1 evs1 where f1: "h1 = h\<lparr>keys := ks1\<rparr>" "tr1 = tr @ evs1"
    and a1: "\<forall>f \<in> set (keysFiles h). Log LvInfo (''Loading keys from file '' @ quoted f) \<in> set tr1"
    by blast
  from loadKeys_URLs_frame [OF b] obtain ks2 evs2 where f2: "h' = h1\<lparr>keys := ks2\<rparr>" "tr' = tr1 @ evs2"
    and a2: "\<forall>u \<in> set (keysURLs h1). Log LvInfo (''Loading keys from URL '' @ quoted u) \<in> set tr'"
    by blast
  from f1 f2 have "\<exists>ks. h' = h\<lparr>keys := ks\<rparr>" by auto
  moreover from f1 f2 have "\<exists>evs. tr' = tr @ evs" by auto
  moreover from a1 f2 have "\<forall>f \<in> set (keysFiles h). Log LvInfo (''Loading keys from file '' @ quoted f) \<in> set tr'"
    by auto
  moreover from a2 f1 have "\<forall>u \<in> set (keysURLs h). Log LvInfo (''Loading keys from URL '' @ quoted u) \<in> set tr'"
    by auto
  ultimately show ?thesis by blast
qed

lemma loadKeys_files_failure:
  assumes "loadKeysFile ev h f (tr @ [Log LvInfo (''Loading keys from file '' @ quoted f)]) = (Some e, h1, tr1)"
  shows "loadKeys_files ev (f # rest) h tr =
     loadKeys_files ev rest h
       (tr @ [Log LvInfo (''Loading keys from file '' @ quoted f),
              Log LvError (''Can't load keys from file '' @ quoted f @ '': '' @ e)])"
  using assms loadKeysFile_failure [OF assms] by (simp add: Let_def)

lemma loadKeys_URLs_failure:
  assumes "loadKeysURL ev h u (tr @ [Log LvInfo (''Loading keys from URL '' @ quoted u)]) = (Some e, h1, tr1)"
  shows "loadKeys_URLs ev (u # rest) h tr =
     loadKeys_URLs ev rest h
       (tr1 @ [Log LvError (''Can't load keys from URL '' @ quoted u @ '': '' @ e)])"
  using assms loadKeysURL_failure [OF assms] by (simp add: Let_def)

text \<open>
  C8: \<open>loadKeys\<close> returns no error, whatever the files and URLs give. Every configured
  file and URL is tried (the line that announces it is in the log), and when a source
  fails, the loop logs the error and goes on with the remaining sources, from the
  handler as it was before that source.
\<close>

theorem loadKeys_absorbs_errors:
  "fst (loadKeys ev h tr) = None \<and>
   (\<forall>f \<in> set (keysFiles h).
      Log LvInfo (''Loading keys from file '' @ quoted f) \<in> set (snd (snd (loadKeys ev h tr)))) \<and>
   (\<forall>u \<in> set (keysURLs h).
      Log LvInfo (''Loading keys from URL '' @ quoted u) \<in> set (snd (snd (loadKeys ev h tr)))) \<and>
   (\<forall>f rest h0 tr0 e h1 tr1.
      loadKeysFile ev h0 f (tr0 @ [Log LvInfo (''Loading keys from file '' @ quoted f)]) =
        (Some e, h1, tr1) \<longrightarrow>
      loadKeys_files ev (f # rest) h0 tr0 =
        loadKeys_files ev rest h0
          (tr0 @ [Log LvInfo (''Loading keys from file '' @ quoted f),
                  Log LvError (''Can't load keys from file '' @ quoted f @ '': '' @ e)])) \<and>
   (\<forall>u rest h0 tr0 e h1 tr1.
      loadKeysURL ev h0 u (tr0 @ [Log LvInfo (''Loading keys from URL '' @ quoted u)]) =
        (Some e, h1, tr1) \<longrightarrow>
      loadKeys_URLs ev (u # rest) h0 tr0 =
        loadKeys_URLs ev rest h0
          (tr1 @ [Log LvError (''Can't load keys from URL '' @ quoted u @ '': '' @ e)]))"
proof -
  obtain err h' tr' where l: "loadKeys ev h tr = (err, h', tr')"
    by (cases "loadKeys ev h tr") auto
  from loadKeys_frame [OF l] l
  have "\<forall>f \<in> set (keysFiles h).
      Log LvInfo (''Loading keys from file '' @ quoted f) \<in> set (snd (snd (loadKeys ev h tr)))"
    and "\<forall>u \<in> set (keysURLs h).
      Log LvInfo (''Loading keys from URL '' @ quoted u) \<in> set (snd (snd (loadKeys ev h tr)))"
    by auto
  then show ?thesis
    using loadKeys_no_error [of ev h tr] loadKeys_files_failure loadKeys_URLs_failure
    by blast
qed

theorem loadKeys_absorbs_errors_witness:
  "loadKeys example_env
     (example_handler\<lparr>keysFiles := [''/etc/keys/missing.json'', ''/etc/keys/jwks.json'']\<rparr>) [] =
   (None,
    example_handler\<lparr>keysFiles := [''/etc/keys/missing.json'', ''/etc/keys/jwks.json''],
                    keys := [''k1'' \<mapsto> \<lparr>rsa_N = 0, rsa_E = 65537\<rparr>,
                             ''k2'' \<mapsto> \<lparr>rsa_N = 65537, rsa_E = 65537\<rparr>]\<rparr>,
    [Log LvInfo (''Loading keys from file '' @ quoted ''/etc/keys/missing.json''),
     Log LvError (''Can't load keys from file '' @ quoted ''/etc/keys/missing.json'' @
                  '': no such file or directory''),
     Log LvInfo (''Loading keys from file '' @ quoted ''/etc/keys/jwks.json''),
     Log LvError (''Can't read key '' @ quoted ''k0'' @ '' because 'alg' is empty''),
     Log LvInfo (''Loaded key '' @ quoted ''k1''),
     Log LvInfo (''Loaded key '' @ quoted ''k2''),
     Log LvInfo (''Loading keys from URL '' @ quoted ''https://sso.example.com/certs''),
     Log LvError (''Can't load keys from URL '' @ quoted ''https://sso.example.com/certs'' @
                  '': connection refused'')])"
  using loadKeys_absorbs_errors [of example_env
      "example_handler\<lparr>keysFiles := [''/etc/keys/missing.json'', ''/etc/keys/jwks.json'']\<rparr>" "[]"]
  by (simp add: example_defs loadKeys_defs ascii_defs quoted_def)

subsection \<open>Selecting the key\<close>

lemma Since_Minute: "Since t u > 1 * Minute \<longleftrightarrow> t - u > 60000000000"
  by (auto simp add: Since_def Sub_def Minute_def maxDuration_def minDuration_def)

text \<open>
  C3: \<open>selectKey\<close>. Without a \<open>kid\<close> in the header of the token, or with one that is
  not a string, it fails and leaves the handler and the log as they are: nothing is
  reloaded. With a string \<open>kid\<close> that the key store knows, it returns that key. On a
  miss, if the last reload is at most one minute old, it fails with the error that
  names the identifier, again without reloading; if it is older, \<open>loadKeys\<close> runs
  (over all the files and URLs), the time of the reload is recorded, and the
  result is what the reloaded store has for the identifier: the key, or the error
  that names the identifier.
\<close>

theorem selectKey_spec:
  "(Header token ''kid'' = None \<longrightarrow>
      selectKey ev t_since t_now h token tr =
        (Inl ''token doesn't have a 'kid' field in the header'', h, tr)) \<and>
   (\<forall>v. Header token ''kid'' = Some v \<and> (\<forall>s. v \<noteq> JString s) \<longrightarrow>
      (\<exists>e. selectKey ev t_since t_now h token tr = (Inl e, h, tr))) \<and>
   (\<forall>kid k. Header token ''kid'' = Some (JString kid) \<and> keys h kid = Some k \<longrightarrow>
      selectKey ev t_since t_now h token tr = (Inr k, h, tr)) \<and>
   (\<forall>kid. Header token ''kid'' = Some (JString kid) \<and> keys h kid = None \<and>
      t_since - lastKeyReload h \<le> 60000000000 \<longrightarrow>
      selectKey ev t_since t_now h token tr =
        (Inl (''there is no key for key identifier '' @ quoted kid), h, tr)) \<and>
   (\<forall>kid. Header token ''kid'' = Some (JString kid) \<and> keys h kid = None \<and>
      t_since - lastKeyReload h > 60000000000 \<longrightarrow>
      selectKey ev t_since t_now h token tr =
        ((case keys (fst (snd (loadKeys ev h tr))) kid of
            None \<Rightarrow> Inl (''there is no key for key identifier '' @ quoted kid)
          | Some k \<Rightarrow> Inr k),
         (fst (snd (loadKeys ev h tr)))\<lparr>lastKeyReload := t_now\<rparr>,
         snd (snd (loadKeys ev h tr)))) \<and>
   (\<forall>kid. Header token ''kid'' = Some (JString kid) \<and> keys h kid = None \<and>
      t_since - lastKeyReload h > 60000000000 \<longrightarrow>
      (\<forall>f \<in> set (keysFiles h).
         Log LvInfo (''Loading keys from file '' @ quoted f) \<in>
           set (snd (snd (selectKey ev t_since t_now h token tr)))) \<and>
      (\<forall>u \<in> set (keysURLs h).
         Log LvInfo (''Loading keys from URL '' @ quoted u) \<in>
           set (snd (snd (selectKey ev t_since t_now h token tr)))))"
proof -
  have a: "Header token ''kid'' = None \<longrightarrow>
      selectKey ev t_since t_now h token tr =
        (Inl ''token doesn't have a 'kid' field in the header'', h, tr)"
    by (simp add: selectKey_def)
  have b: "\<forall>v. Header token ''kid'' = Some v \<and> (\<forall>s. v \<noteq> JString s) \<longrightarrow>
      (\<exists>e. selectKey ev t_since t_now h token tr = (Inl e, h, tr))"
  proof (intro allI impI)
    fix v assume "Header token ''kid'' = Some v \<and> (\<forall>s. v \<noteq> JString s)"
    then show "\<exists>e. selectKey ev t_since t_now h token tr = (Inl e, h, tr)"
      by (cases v) (simp_all add: selectKey_def)
  qed
  have c: "\<forall>kid k. Header token ''kid'' = Some (JString kid) \<and> keys h kid = Some k \<longrightarrow>
      selectKey ev t_since t_now h token tr = (Inr k, h, tr)"
    by (simp add: selectKey_def)
  have d: "\<forall>kid. Header token ''kid'' = Some (JString kid) \<and> keys h kid = None \<and>
      t_since - lastKeyReload h \<le> 60000000000 \<longrightarrow>
      selectKey ev t_since t_now h token tr =
        (Inl (''there is no key for key identifier '' @ quoted kid), h, tr)"
    using Since_Minute [of t_since "lastKeyReload h"] by (simp add: selectKey_def)
  have e: "\<forall>kid. Header token ''kid'' = Some (JString kid) \<and> keys h kid = None \<and>
      t_since - lastKeyReload h > 60000000000 \<longrightarrow>
      selectKey ev t_since t_now h token tr =
        ((case keys (fst (snd (loadKeys ev h tr))) kid of
            None \<Rightarrow> Inl (''there is no key for key identifier '' @ quoted kid)
          | Some k \<Rightarrow> Inr k),
         (fst (snd (loadKeys ev h tr)))\<lparr>lastKeyReload := t_now\<rparr>,
         snd (snd (loadKeys ev h tr)))"
  proof (intro allI impI)
    fix kid
    assume p: "Header token ''kid'' = Some (JString kid) \<and> keys h kid = None \<and>
      t_since - lastKeyReload h > 60000000000"
    obtain err h' tr' where l: "loadKeys ev h tr = (err, h', tr')"
      by (cases "loadKeys ev h tr") auto
    with loadKeys_no_error [of ev h tr] have n: "err = None" by simp
    from p have s: "Since t_since (lastKeyReload h) > 1 * Minute"
      using Since_Minute [of t_since "lastKeyReload h"] by simp
    show "selectKey ev t_since t_now h token tr =
        ((case keys (fst (snd (loadKeys ev h tr))) kid of
            None \<Rightarrow> Inl (''there is no key for key identifier '' @ quoted kid)
          | Some k \<Rightarrow> Inr k),
         (fst (snd (loadKeys ev h tr)))\<lparr>lastKeyReload := t_now\<rparr>,
         snd (snd (loadKeys ev h tr)))"
      using p s l n by (simp add: selectKey_def Let_def split: option.splits)
  qed
  have f: "\<forall>kid. Header token ''kid'' = Some (JString kid) \<and> keys h kid = None \<and>
      t_since - lastKeyReload h > 60000000000 \<longrightarrow>
      (\<forall>f \<in> set (keysFiles h).
         Log LvInfo (''Loading keys from file '' @ quoted f) \<in>
           set (snd (snd (selectKey ev t_since t_now h token tr)))) \<and>
      (\<forall>u \<in> set (keysURLs h).
         Log LvInfo (''Loading keys from URL '' @ quoted u) \<in>
           set (snd (snd (selectKey ev t_since t_now h token tr))))"
  proof (intro allI impI)
    fix kid
    assume p: "Header token ''kid'' = Some (JString kid) \<and> keys h kid = None \<and>
      t_since - lastKeyReload h > 60000000000"
    obtain err h' tr' where l: "loadKeys ev h tr = (err, h', tr')"
      by (cases "loadKeys ev h tr") auto
    from e p l have "snd (snd (selectKey ev t_since t_now h token tr)) = tr'" by simp
    with loadKeys_frame [OF l]
    show "(\<forall>f \<in> set (keysFiles h).
         Log LvInfo (''Loading keys from file '' @ quoted f) \<in>
           set (snd (snd (selectKey ev t_since t_now h token tr)))) \<and>
      (\<forall>u \<in> set (keysURLs h).
         Log LvInfo (''Loading keys from URL '' @ quoted u) \<in>
           set (snd (snd (selectKey ev t_since t_now h token tr))))"
      by simp
  qed
  from a b c d e f show ?thesis by blast
qed

theorem selectKey_spec_witness:
  "Header example_token ''kid'' = Some (JString ''k2'') \<and> keys example_handler ''k2'' = None \<and>
   0 - lastKeyReload example_handler > 60000000000 \<and>
   selectKey example_env 0 5 example_handler example_token [] =
     (Inr \<lparr>rsa_N = 65537, rsa_E = 65537\<rparr>,
      example_handler\<lparr>keys := [''k1'' \<mapsto> \<lparr>rsa_N = 0, rsa_E = 65537\<rparr>,
                              ''k2'' \<mapsto> \<lparr>rsa_N = 65537, rsa_E = 65537\<rparr>],
                      lastKeyReload := 5\<rparr>,
      [Log LvInfo (''Loading keys from file '' @ quoted ''/etc/keys/jwks.json''),
       Log LvError (''Can't read key '' @ quoted ''k0'' @ '' because 'alg' is empty''),
       Log LvInfo (''Loaded key '' @ quoted ''k1''),
       Log LvInfo (''Loaded key '' @ quoted ''k2''),
       Log LvInfo (''Loading keys from URL '' @ quoted ''https://sso.example.com/certs''),
       Log LvError (''Can't load keys from URL '' @ quoted ''https://sso.example.com/certs'' @
                    '': connection refused'')]) \<and>
   selectKey example_env 30000000000 35000000000 (example_handler\<lparr>lastKeyReload := 5\<rparr>)
     (example_token\<lparr>Header := [''kid'' \<mapsto> JString ''k9'']\<rparr>) [] =
     (Inl (''there is no key for key identifier '' @ quoted ''k9''),
      example_handler\<lparr>lastKeyReload := 5\<rparr>, []) \<and>
   selectKey example_env 0 5 example_handler (example_token\<lparr>Header := Map.empty\<rparr>) [] =
     (Inl ''token doesn't have a 'kid' field in the header'', example_handler, [])"
  using selectKey_spec [of example_token example_env 0 5 example_handler "[]"]
    selectKey_spec [of "example_token\<lparr>Header := [''kid'' \<mapsto> JString ''k9'']\<rparr>" example_env
      30000000000 35000000000 "example_handler\<lparr>lastKeyReload := 5\<rparr>" "[]"]
    selectKey_spec [of "example_token\<lparr>Header := Map.empty\<rparr>" example_env 0 5 example_handler "[]"]
  by (simp add: example_defs loadKeys_defs ascii_eval quoted_def zeroTime_def)

subsection \<open>The claims\<close>

lemmas checkClaims_defs = checkClaims_def checkStringClaim_def checkTimeClaim_def checkClaim_def

lemma checkClaims_ok_iff:
  "fst (checkClaims ev h r claims tr) \<longleftrightarrow>
      (\<exists>s. claims ''typ'' = Some (JString s) \<and> EqualFold s ''Bearer'') \<and>
      (\<exists>x. claims ''iat'' = Some (JNumber x)) \<and>
      (\<exists>x. claims ''exp'' = Some (JNumber x))"
  by (auto simp add: checkClaims_defs split: option.splits json.splits)

lemma checkClaims_ok_trace:
  "fst (checkClaims ev h r claims tr) \<Longrightarrow> snd (checkClaims ev h r claims tr) = tr"
  by (auto simp add: checkClaims_defs split: option.splits json.splits if_splits)

lemma checkClaims_failure:
  "\<not> fst (checkClaims ev h r claims tr) \<Longrightarrow>
   \<exists>reason. snd (checkClaims ev h r claims tr) = sendError h r reason tr"
  by (auto simp add: checkClaims_defs split: option.splits json.splits if_splits)

lemma checkClaims_failure_events:
  assumes "\<not> fst (checkClaims ev h r claims tr)"
  shows "\<exists>reason evs. snd (checkClaims ev h r claims tr) = tr @ evs \<and> unauthorized reason evs"
proof -
  from checkClaims_failure [OF assms] obtain reason
    where "snd (checkClaims ev h r claims tr) = sendError h r reason tr" by blast
  with sendError_unauthorized [of h r reason tr] show ?thesis by auto
qed

lemma checkClaims_typ_missing:
  "claims ''typ'' = None \<Longrightarrow>
   checkClaims ev h r claims tr =
     (False, sendError h r (''Bearer token doesn't contain required claim '' @ quoted ''typ'') tr)"
  by (simp add: checkClaims_defs)

lemma checkClaims_typ_wrong:
  "claims ''typ'' = Some v \<Longrightarrow> \<forall>s. v \<noteq> JString s \<Longrightarrow>
   checkClaims ev h r claims tr =
     (False, sendError h r (''Bearer token claim '' @ quoted ''typ'' @
                            '' contains incorrect text value '' @ quoted (fmt_v ev v)) tr)"
  by (cases v) (simp_all add: checkClaims_defs)

lemma checkClaims_iat_missing:
  "claims ''typ'' = Some (JString s) \<Longrightarrow> EqualFold s ''Bearer'' \<Longrightarrow> claims ''iat'' = None \<Longrightarrow>
   checkClaims ev h r claims tr =
     (False, sendError h r (''Bearer token doesn't contain required claim '' @ quoted ''iat'') tr)"
  by (simp add: checkClaims_defs)

lemma checkClaims_iat_wrong:
  "claims ''typ'' = Some (JString s) \<Longrightarrow> EqualFold s ''Bearer'' \<Longrightarrow>
   claims ''iat'' = Some v \<Longrightarrow> \<forall>x. v \<noteq> JNumber x \<Longrightarrow>
   checkClaims ev h r claims tr =
     (False, sendError h r (''Bearer token claim '' @ quoted ''iat'' @
                            '' contains incorrect time value '' @ quoted (fmt_v ev v)) tr)"
  by (cases v) (simp_all add: checkClaims_defs)

lemma checkClaims_exp_missing:
  "claims ''typ'' = Some (JString s) \<Longrightarrow> EqualFold s ''Bearer'' \<Longrightarrow>
   claims ''iat'' = Some (JNumber x) \<Longrightarrow> claims ''exp'' = None \<Longrightarrow>
   checkClaims ev h r claims tr =
     (False, sendError h r (''Bearer token doesn't contain required claim '' @ quoted ''exp'') tr)"
  by (simp add: checkClaims_defs)

lemma checkClaims_exp_wrong:
  "claims ''typ'' = Some (JString s) \<Longrightarrow> EqualFold s ''Bearer'' \<Longrightarrow>
   claims ''iat'' = Some (JNumber x) \<Longrightarrow> claims ''exp'' = Some v \<Longrightarrow> \<forall>y. v \<noteq> JNumber y \<Longrightarrow>
   checkClaims ev h r claims tr =
     (False, sendError h r (''Bearer token claim '' @ quoted ''exp'' @
                            '' contains incorrect time value '' @ quoted (fmt_v ev v)) tr)"
  by (cases v) (simp_all add: checkClaims_defs)

text \<open>
  C5: \<open>checkClaims\<close> succeeds exactly when \<open>typ\<close> is a string equal to \<open>Bearer\<close> up to
  the case of the letters, and \<open>iat\<close> and \<open>exp\<close> are numbers; then it emits nothing.
  Otherwise it emits one rejection, and nothing more. The first of \<open>typ\<close>, \<open>iat\<close> and
  \<open>exp\<close> that is absent or of the wrong type is named in the reason.
\<close>

theorem checkClaims_spec:
  "(fst (checkClaims ev h r claims tr) \<longleftrightarrow>
      (\<exists>s. claims ''typ'' = Some (JString s) \<and> EqualFold s ''Bearer'') \<and>
      (\<exists>x. claims ''iat'' = Some (JNumber x)) \<and>
      (\<exists>x. claims ''exp'' = Some (JNumber x))) \<and>
   (fst (checkClaims ev h r claims tr) \<longrightarrow> snd (checkClaims ev h r claims tr) = tr) \<and>
   (\<not> fst (checkClaims ev h r claims tr) \<longrightarrow>
      (\<exists>reason evs. snd (checkClaims ev h r claims tr) = tr @ evs \<and> unauthorized reason evs)) \<and>
   (claims ''typ'' = None \<longrightarrow>
      checkClaims ev h r claims tr =
        (False, sendError h r (''Bearer token doesn't contain required claim '' @ quoted ''typ'') tr)) \<and>
   (\<forall>v. claims ''typ'' = Some v \<and> (\<forall>s. v \<noteq> JString s) \<longrightarrow>
      checkClaims ev h r claims tr =
        (False, sendError h r (''Bearer token claim '' @ quoted ''typ'' @
                               '' contains incorrect text value '' @ quoted (fmt_v ev v)) tr)) \<and>
   (\<forall>s. claims ''typ'' = Some (JString s) \<and> EqualFold s ''Bearer'' \<longrightarrow>
      (claims ''iat'' = None \<longrightarrow>
         checkClaims ev h r claims tr =
           (False, sendError h r (''Bearer token doesn't contain required claim '' @ quoted ''iat'') tr)) \<and>
      (\<forall>v. claims ''iat'' = Some v \<and> (\<forall>x. v \<noteq> JNumber x) \<longrightarrow>
         checkClaims ev h r claims tr =
           (False, sendError h r (''Bearer token claim '' @ quoted ''iat'' @
                                  '' contains incorrect time value '' @ quoted (fmt_v ev v)) tr)) \<and>
      (\<forall>x. claims ''iat'' = Some (JNumber x) \<longrightarrow>
         (claims ''exp'' = None \<longrightarrow>
            checkClaims ev h r claims tr =
              (False, sendError h r (''Bearer token doesn't contain required claim '' @ quoted ''exp'') tr)) \<and>
         (\<forall>v. claims ''exp'' = Some v \<and> (\<forall>y. v \<noteq> JNumber y) \<longrightarrow>
            checkClaims ev h r claims tr =
              (False, sendError h r (''Bearer token claim '' @ quoted ''exp'' @
                                     '' contains incorrect time value '' @ quoted (fmt_v ev v)) tr))))"
  using checkClaims_ok_iff [of ev h r claims tr] checkClaims_ok_trace [of ev h r claims tr]
    checkClaims_failure_events [of ev h r claims tr]
    checkClaims_typ_missing [of claims ev h r tr] checkClaims_typ_wrong [of claims _ ev h r tr]
    checkClaims_iat_missing [of claims _ ev h r tr] checkClaims_iat_wrong [of claims _ _ ev h r tr]
    checkClaims_exp_missing [of claims _ _ ev h r tr] checkClaims_exp_wrong [of claims _ _ _ ev h r tr]
  by blast

theorem checkClaims_spec_witness:
  "Claims example_token ''typ'' = Some (JString ''bearer'') \<and> EqualFold ''bearer'' ''Bearer'' \<and>
   checkClaims example_env example_handler example_request (Claims example_token) [] = (True, []) \<and>
   checkClaims example_env example_handler example_request
     [''typ'' \<mapsto> JString ''Bearer'', ''iat'' \<mapsto> JString ''now'', ''exp'' \<mapsto> JNumber 2] [] =
     (False,
      [Header_Set ''WWW-Authenticate'' (''Bearer realm='' @ [CHR 0x22] @ ''clusters_mgmt/v1'' @ [CHR 0x22]),
       Response 401
         (Some \<lparr>err_id = Some ''401'',
                err_href = Some ''/api/clusters_mgmt/v1/errors/401'',
                err_code = Some ''CLUSTERS-MGMT-401'',
                err_reason = Some (''Bearer token claim '' @ quoted ''iat'' @
                                   '' contains incorrect time value '' @ quoted ''?'')\<rparr>)])"
  using checkClaims_spec [of example_env example_handler example_request "Claims example_token" "[]"]
  by (simp add: checkClaims_defs example_defs sendError_defs Let_def EqualFold_def ascii_eval)

subsection \<open>The access control list\<close>

lemma checkACL_loop_iff:
  "checkACL_loop items claims \<longleftrightarrow>
     (\<exists>(c, p) \<in> set items. \<exists>s. claims c = Some (JString s) \<and> p s)"
  by (induction items claims rule: checkACL_loop.induct) (auto split: option.splits json.splits)

text \<open>
  C4: \<open>checkACL\<close> returns true when there are no ACL items. When there are some, it
  returns true exactly when for one of them the claim exists, is a string, and
  matches the pattern, in whatever order the items are visited. When it returns true
  it emits nothing; when it returns false it emits one rejection with the reason
  \<open>Access denied\<close>.
\<close>

theorem checkACL_spec:
  "(aclItems h = [] \<longrightarrow> checkACL h r claims tr = (True, tr)) \<and>
   (aclItems h \<noteq> [] \<longrightarrow>
      (fst (checkACL h r claims tr) \<longleftrightarrow>
         (\<exists>(c, p) \<in> set (aclItems h). \<exists>s. claims c = Some (JString s) \<and> p s))) \<and>
   (fst (checkACL h r claims tr) \<longrightarrow> snd (checkACL h r claims tr) = tr) \<and>
   (\<not> fst (checkACL h r claims tr) \<longrightarrow>
      (\<exists>evs. snd (checkACL h r claims tr) = tr @ evs \<and> unauthorized ''Access denied'' evs))"
  using sendError_unauthorized [of h r "''Access denied''" tr]
  by (auto simp add: checkACL_def checkACL_loop_iff)

theorem checkACL_spec_witness:
  "aclItems (example_handler\<lparr>aclItems := [(''email'', \<lambda>s. s = ''jdoe@example.com'')]\<rparr>) \<noteq> [] \<and>
   checkACL (example_handler\<lparr>aclItems := [(''email'', \<lambda>s. s = ''jdoe@example.com'')]\<rparr>)
     example_request (Claims example_token) [] = (True, []) \<and>
   checkACL (example_handler\<lparr>aclItems := [(''email'', \<lambda>s. s = ''jdoe@example.com'')]\<rparr>)
     example_request [''email'' \<mapsto> JString ''jdoe@example.org''] [] =
     (False,
      [Header_Set ''WWW-Authenticate'' (''Bearer realm='' @ [CHR 0x22] @ ''clusters_mgmt/v1'' @ [CHR 0x22]),
       Response 401
         (Some \<lparr>err_id = Some ''401'',
                err_href = Some ''/api/clusters_mgmt/v1/errors/401'',
                err_code = Some ''CLUSTERS-MGMT-401'',
                err_reason = Some ''Access denied''\<rparr>)]) \<and>
   checkACL example_handler example_request Map.empty [] = (True, [])"
  using checkACL_spec [of "example_handler\<lparr>aclItems := [(''email'', \<lambda>s. s = ''jdoe@example.com'')]\<rparr>"
      example_request "Claims example_token" "[]"]
    checkACL_spec [of example_handler example_request Map.empty "[]"]
  by (simp add: checkACL_def example_defs sendError_defs Let_def ascii_eval)

subsection \<open>The handler\<close>

lemma public_match_iff:
  "public_match exprs path \<longleftrightarrow> (\<exists>expr \<in> set exprs. expr path)"
  by (induction exprs) auto

text \<open>
  C7: a request whose path matches one of the public patterns goes to the next
  handler as it is. The handler is unchanged (no key is loaded), nothing is logged or
  sent, and neither the headers of the request nor the environment play a part.
\<close>

theorem ServeHTTP_public:
  assumes "\<exists>expr \<in> set (publicPaths h). expr (URL_Path r)"
  shows "ServeHTTP ev t_since t_now h r tr = (h, tr @ [next_ServeHTTP (nextHandler h) r])"
  using assms by (simp add: ServeHTTP_def public_match_iff)

theorem ServeHTTP_public_witness:
  "(\<lambda>s. s = ''/api/v1/public'') \<in> set (publicPaths example_handler) \<and>
   ServeHTTP example_env 0 0 example_handler
     \<lparr>URL_Path = ''/api/v1/public'', r_Header = Map.empty, r_ctx_token = None\<rparr> [] =
     (example_handler,
      [next_ServeHTTP (Http_Handler ''api'')
         \<lparr>URL_Path = ''/api/v1/public'', r_Header = Map.empty, r_ctx_token = None\<rparr>])"
  using ServeHTTP_public [of example_handler
      "\<lparr>URL_Path = ''/api/v1/public'', r_Header = Map.empty, r_ctx_token = None\<rparr>" example_env 0 0 "[]"]
  by (simp add: example_handler_def)

lemma space_not_alnum: "is_space c \<Longrightarrow> \<not> is_alnum c"
  by (auto simp add: is_space_def is_alnum_def ascii_defs)

lemma bearerRE_result:
  "bearerRE_FindStringSubmatch header = [] \<or>
   (\<exists>scheme bearer. bearerRE_FindStringSubmatch header = [header, scheme, bearer] \<and> scheme \<noteq> [])"
  by (simp add: bearerRE_FindStringSubmatch_def Let_def)

lemma bearerRE_matches_iff:
  "bearerRE_FindStringSubmatch header \<noteq> [] \<longleftrightarrow>
     (\<exists>scheme spaces bearer. header = scheme @ spaces @ bearer \<and>
        scheme \<noteq> [] \<and> list_all is_alnum scheme \<and> spaces \<noteq> [] \<and> list_all is_space spaces \<and>
        CHR 0x0A \<notin> set bearer)"
proof
  assume m: "bearerRE_FindStringSubmatch header \<noteq> []"
  let ?scheme = "takeWhile is_alnum header"
  let ?rest = "dropWhile is_alnum header"
  let ?spaces = "takeWhile is_space ?rest"
  let ?bearer = "dropWhile is_space ?rest"
  from m have c: "?scheme \<noteq> []" "?spaces \<noteq> []" "CHR 0x0A \<notin> set ?bearer"
    by (auto simp add: bearerRE_FindStringSubmatch_def Let_def split: if_splits)
  have "header = ?scheme @ ?spaces @ ?bearer" by simp
  moreover have "list_all is_alnum ?scheme" "list_all is_space ?spaces"
    by (auto simp add: list_all_iff dest: set_takeWhileD)
  ultimately show "\<exists>scheme spaces bearer. header = scheme @ spaces @ bearer \<and>
        scheme \<noteq> [] \<and> list_all is_alnum scheme \<and> spaces \<noteq> [] \<and> list_all is_space spaces \<and>
        CHR 0x0A \<notin> set bearer"
    using c by blast
next
  assume "\<exists>scheme spaces bearer. header = scheme @ spaces @ bearer \<and>
        scheme \<noteq> [] \<and> list_all is_alnum scheme \<and> spaces \<noteq> [] \<and> list_all is_space spaces \<and>
        CHR 0x0A \<notin> set bearer"
  then obtain scheme spaces bearer where h: "header = scheme @ spaces @ bearer"
    and t: "scheme \<noteq> []" "list_all is_alnum scheme"
    and s: "spaces \<noteq> []" "list_all is_space spaces"
    and b: "CHR 0x0A \<notin> set bearer" by blast
  from s obtain w ws where w: "spaces = w # ws" "is_space w" by (cases spaces) auto
  then have nw: "\<not> is_alnum w" by (simp add: space_not_alnum)
  have tw: "takeWhile is_alnum header = scheme"
    using t nw by (simp add: h w takeWhile_tail list_all_iff)
  have dw: "dropWhile is_alnum header = spaces @ bearer"
    using t nw by (simp add: h w dropWhile_append3 list_all_iff)
  have ts: "takeWhile is_space (spaces @ bearer) = spaces @ takeWhile is_space bearer"
    using s by (simp add: takeWhile_append2 list_all_iff)
  have ds: "dropWhile is_space (spaces @ bearer) = dropWhile is_space bearer"
    using s by (simp add: dropWhile_append2 list_all_iff)
  have "CHR 0x0A \<notin> set (dropWhile is_space bearer)"
    using b by (auto dest: set_dropWhileD)
  then show "bearerRE_FindStringSubmatch header \<noteq> []"
    using t s by (simp add: bearerRE_FindStringSubmatch_def Let_def tw dw ts ds)
qed



text \<open>
  The sample request, end to end: the token names the key \<open>k2\<close>, which the empty key
  store does not have; the keys are loaded, the token and its claims are accepted,
  and the next handler gets the request with the token in its context.
\<close>

lemma ServeHTTP_example:
  "ServeHTTP example_env 0 5 example_handler example_request [] =
     (example_handler\<lparr>keys := [''k1'' \<mapsto> \<lparr>rsa_N = 0, rsa_E = 65537\<rparr>,
                              ''k2'' \<mapsto> \<lparr>rsa_N = 65537, rsa_E = 65537\<rparr>],
                      lastKeyReload := 5\<rparr>,
      [Log LvInfo (''Loading keys from file '' @ quoted ''/etc/keys/jwks.json''),
       Log LvError (''Can't read key '' @ quoted ''k0'' @ '' because 'alg' is empty''),
       Log LvInfo (''Loaded key '' @ quoted ''k1''),
       Log LvInfo (''Loaded key '' @ quoted ''k2''),
       Log LvInfo (''Loading keys from URL '' @ quoted ''https://sso.example.com/certs''),
       Log LvError (''Can't load keys from URL '' @ quoted ''https://sso.example.com/certs'' @
                    '': connection refused''),
       next_ServeHTTP (Http_Handler ''api'')
         (example_request\<lparr>r_ctx_token := Some example_token\<rparr>)])"
  by (simp add: ServeHTTP_def Header_Get_def bearerRE_FindStringSubmatch_def is_alnum_def
      is_space_def checkToken_def ParseWithClaims_def selectKey_def Since_def Sub_def
      Minute_def maxDuration_def minDuration_def zeroTime_def checkClaims_defs checkACL_def
      example_defs loadKeys_defs Let_def EqualFold_def ascii_eval quoted_def)

end
